theory Spec2Isabelle
  imports Complex_Main "HOL-Library.Sublist"
begin

section \<open>Numeric values and the numpy primitives the scripts call\<close>

text \<open>
  The scripts compute with numpy's float64. The model computes with exact reals: rounding
  is not modelled. The one IEEE value that changes what a script does is NaN, the result
  of \<^verbatim>\<open>np.sqrt\<close> on a negative argument (numpy warns and returns NaN, it does not
  raise), so every value that can come from a square root is an \<open>npfloat\<close>.
\<close>

datatype npfloat = NaN | Fin real

definition np_sqrt :: "real \<Rightarrow> npfloat" where
  "np_sqrt r = (if r < 0 then NaN else Fin (sqrt r))"

text \<open>
  \<^verbatim>\<open>np.sqrt\<close> of a Python int: numpy first turns the int into a 64-bit integer, an int64
  from \<^verbatim>\<open>-2**63\<close> on and a uint64 up to \<^verbatim>\<open>2**64 - 1\<close>, and takes the root of its float. An
  int outside that range has no numeric type in numpy, and \<^verbatim>\<open>np.sqrt\<close> raises
  \<^verbatim>\<open>TypeError\<close>.
\<close>

datatype py_error = TypeError

definition np_sqrt_int :: "int \<Rightarrow> py_error + npfloat" where
  "np_sqrt_int n =
     (if - (2 ^ 63) \<le> n \<and> n < 2 ^ 64 then Inr (np_sqrt (of_int n)) else Inl TypeError)"

text \<open>Unary minus on a float: the negation of NaN is NaN.\<close>

fun np_neg :: "npfloat \<Rightarrow> npfloat" where
  "np_neg NaN = NaN"
| "np_neg (Fin r) = Fin (- r)"

text \<open>
  One axis of \<^verbatim>\<open>np.ogrid[start:stop:nj]\<close>: a complex step \<open>nj\<close> asks for \<open>n\<close>
  samples, and numpy computes them as \<^verbatim>\<open>arange(n) * ((stop - start) / (n - 1)) + start\<close>.
\<close>

definition ogrid_axis :: "real \<Rightarrow> real \<Rightarrow> nat \<Rightarrow> real list" where
  "ogrid_axis start stop n =
     map (\<lambda>i. real i * ((stop - start) / real (n - 1)) + start) [0..<n]"

text \<open>
  \<^verbatim>\<open>y, x = np.ogrid[-y_max:y_max:100j, -x_max:x_max:100j]\<close>, the line every script
  has: \<open>y\<close> is the column vector (shape 100 x 1) and \<open>x\<close> the row vector (shape 1 x 100).
\<close>

definition ogrid :: "int \<Rightarrow> int \<Rightarrow> real list \<times> real list" where
  "ogrid y_max x_max =
     (ogrid_axis (- real_of_int y_max) (real_of_int y_max) 100,
      ogrid_axis (- real_of_int x_max) (real_of_int x_max) 100)"

text \<open>
  Broadcasting a column vector \<open>y\<close> against a row vector \<open>x\<close>: entry \<open>[i][j]\<close> of the
  result combines \<open>y[i]\<close> with \<open>x[j]\<close>.
\<close>

definition broadcast :: "(real \<Rightarrow> real \<Rightarrow> real) \<Rightarrow> real list \<Rightarrow> real list \<Rightarrow> real list list" where
  "broadcast f y x = map (\<lambda>yi. map (\<lambda>xj. f yi xj) x) y"

text \<open>\<^verbatim>\<open>np.arange(start, stop, step)\<close>: \<open>ceil((stop - start) / step)\<close> values from \<open>start\<close>.\<close>

definition arange :: "real \<Rightarrow> real \<Rightarrow> real \<Rightarrow> real list" where
  "arange start stop step =
     map (\<lambda>i. start + real i * step) [0..<nat \<lceil>(stop - start) / step\<rceil>]"

text \<open>\<^verbatim>\<open>np.linspace(start, stop, n)\<close>, both ends included.\<close>

definition linspace :: "real \<Rightarrow> real \<Rightarrow> nat \<Rightarrow> real list" where
  "linspace start stop n =
     map (\<lambda>i. start + real i * ((stop - start) / real (n - 1))) [0..<n]"

section \<open>Formatting numbers into strings\<close>

text \<open>Python's \<^verbatim>\<open>str\<close> of an int, which is what \<^verbatim>\<open>f"{a}"\<close> inserts.\<close>

fun str_nat :: "nat \<Rightarrow> string" where
  "str_nat n =
     (if n < 10 then [''0123456789'' ! n]
      else str_nat (n div 10) @ [''0123456789'' ! (n mod 10)])"

declare str_nat.simps [simp del]

definition str_int :: "int \<Rightarrow> string" where
  "str_int i = (if i < 0 then CHR ''-'' # str_nat (nat (- i)) else str_nat (nat i))"

text \<open>
  \<^verbatim>\<open>f"{v:.0f}"\<close> of a float: no decimals, ties to the even integer, and a negative
  value that rounds to zero keeps its sign.
\<close>

definition round_half_even :: "real \<Rightarrow> int" where
  "round_half_even v =
     (let n = \<lfloor>v\<rfloor>; r = v - of_int n
      in if r < 1 / 2 then n else if 1 / 2 < r then n + 1
         else if even n then n else n + 1)"

definition fmt_0f :: "real \<Rightarrow> string" where
  "fmt_0f v =
     (let r = round_half_even v
      in if r = 0 \<and> v < 0 then ''-0'' else str_int r)"

section \<open>The plotting calls a script issues\<close>

text \<open>
  A script is a straight line of matplotlib calls; its model is the list of those calls,
  in order, with the arguments the script computed. \<open>Axes r c\<close> is the subplot in row \<open>r\<close>
  and column \<open>c\<close>: \<^verbatim>\<open>ax1\<close> is \<open>Axes 0 0\<close>, \<^verbatim>\<open>ax2\<close> is \<open>Axes 0 1\<close> and \<^verbatim>\<open>axes[i, j]\<close> is
  \<open>Axes i j\<close>. Figure sizes and axis sharing are left out; \<^verbatim>\<open>plt.annotate\<close> draws on
  the current axes and carries its \<^verbatim>\<open>arrowprops\<close> as (arrowstyle, color). No script
  catches an exception, so an exception ends the script: \<open>Raise e\<close> is then the last entry
  of the list, after the calls issued before it.
\<close>

datatype axes = Axes nat nat

abbreviation ax1 :: axes where "ax1 \<equiv> Axes 0 0"
abbreviation ax2 :: axes where "ax2 \<equiv> Axes 0 1"

datatype call =
    Subplots nat nat
  | Contour axes "real list" "real list" "real list list" "real list" string
  | Set_title axes string
  | Set_xlabel axes string
  | Set_ylabel axes string
  | Set_ylim axes real real
  | Axhline axes
  | Axvline axes
  | Grid axes
  | Annotate string "npfloat \<times> npfloat" "npfloat \<times> npfloat" "string \<times> string"
  | Plot axes "npfloat list" "npfloat list" string string
  | Legend axes
  | Tight_layout
  | Savefig string
  | Show
  | Raise py_error

section \<open>The implicit surfaces\<close>

text \<open>
  \<^verbatim>\<open>elliptic_curve = pow(y, 2) - pow(x, 3) - x * a - b\<close>: the same line in
  cubic-to-elliptic-curve.py, plot-elliptic-curve.py and point-addition.py.
\<close>

definition elliptic_curve :: "real \<Rightarrow> real \<Rightarrow> real list \<Rightarrow> real list \<Rightarrow> real list list" where
  "elliptic_curve a b y x = broadcast (\<lambda>y x. y ^ 2 - x ^ 3 - x * a - b) y x"

text \<open>\<^verbatim>\<open>curve = pow(y, 2) - pow(x, 3) - x * a - b\<close> of plot-elliptic-curve-grid.py.\<close>

definition curve :: "real \<Rightarrow> real \<Rightarrow> real list \<Rightarrow> real list \<Rightarrow> real list list" where
  "curve a b y x = broadcast (\<lambda>y x. y ^ 2 - x ^ 3 - x * a - b) y x"

text \<open>The two cubic branches of cubic-to-elliptic-curve.py (prefix \<open>c2e\<close>).\<close>

definition c2e_cubic_curve :: "real \<Rightarrow> real \<Rightarrow> real list \<Rightarrow> real list \<Rightarrow> real list list" where
  "c2e_cubic_curve a b y x = broadcast (\<lambda>y x. - y + x ^ 3 + x * a + b) y x"

definition c2e_cubic_curve_neg :: "real \<Rightarrow> real \<Rightarrow> real list \<Rightarrow> real list \<Rightarrow> real list list" where
  "c2e_cubic_curve_neg a b y x = broadcast (\<lambda>y x. y + x ^ 3 + x * a + b) y x"

text \<open>The two cubic branches of plot-elliptic-curve.py (prefix \<open>pec\<close>).\<close>

definition pec_cubic_curve :: "real \<Rightarrow> real \<Rightarrow> real list \<Rightarrow> real list \<Rightarrow> real list list" where
  "pec_cubic_curve a b y x = broadcast (\<lambda>y x. y - x ^ 3 - x * a - b) y x"

definition pec_cubic_curve_neg :: "real \<Rightarrow> real \<Rightarrow> real list \<Rightarrow> real list \<Rightarrow> real list list" where
  "pec_cubic_curve_neg a b y x = broadcast (\<lambda>y x. - y - x ^ 3 - x * a - b) y x"

section \<open>Equation titles\<close>

text \<open>
  \<^verbatim>\<open>f'y = x^3 {f"- {a}x" if a != 0 else ""} {f"- {b}" if b != 0 else ""}'\<close>, the first
  title of cubic-to-elliptic-curve.py and of plot-elliptic-curve.py.
\<close>

definition cubic_eq_title :: "int \<Rightarrow> int \<Rightarrow> string" where
  "cubic_eq_title a b =
     ''y = x^3 '' @ (if a \<noteq> 0 then ''- '' @ str_int a @ ''x'' else '''') @ '' ''
       @ (if b \<noteq> 0 then ''- '' @ str_int b else '''')"

text \<open>
  \<^verbatim>\<open>f'y^2 = x^3 {f" {a}x" if a != 0 else ""} {f"- {b}" if b != 0 else ""}'\<close>, the second
  title of cubic-to-elliptic-curve.py (no minus sign before the \<open>a\<close> term).
\<close>

definition c2e_eq_title :: "int \<Rightarrow> int \<Rightarrow> string" where
  "c2e_eq_title a b =
     ''y^2 = x^3 '' @ (if a \<noteq> 0 then '' '' @ str_int a @ ''x'' else '''') @ '' ''
       @ (if b \<noteq> 0 then ''- '' @ str_int b else '''')"

text \<open>
  \<^verbatim>\<open>f'y^2 = x^3 {f"- {a}x" if a != 0 else ""} {f"- {b}" if b != 0 else ""}'\<close>, the second
  title of plot-elliptic-curve.py.
\<close>

definition pec_eq_title :: "int \<Rightarrow> int \<Rightarrow> string" where
  "pec_eq_title a b =
     ''y^2 = x^3 '' @ (if a \<noteq> 0 then ''- '' @ str_int a @ ''x'' else '''') @ '' ''
       @ (if b \<noteq> 0 then ''- '' @ str_int b else '''')"

section \<open>cubic-to-elliptic-curve.py\<close>

text \<open>\<^verbatim>\<open>x_points = np.arange(-1.6, 2, 0.5)\<close>\<close>

definition x_points :: "real list" where
  "x_points = arange (- 1.6) 2 0.5"

text \<open>
  The explicit forms at the marker abscissas:
  \<^verbatim>\<open>cubic_curve_points = x_points**3 + a*x_points + b\<close>,
  \<^verbatim>\<open>cubic_curve_neg_points = -(x_points**3 + a*x_points + b)\<close>,
  \<^verbatim>\<open>elliptic_curve_points = np.sqrt(x_points**3 + a*x_points + b)\<close>.
\<close>

definition cubic_curve_points :: "real \<Rightarrow> real \<Rightarrow> real list \<Rightarrow> real list" where
  "cubic_curve_points a b xs = map (\<lambda>x. x ^ 3 + a * x + b) xs"

definition cubic_curve_neg_points :: "real \<Rightarrow> real \<Rightarrow> real list \<Rightarrow> real list" where
  "cubic_curve_neg_points a b xs = map (\<lambda>x. - (x ^ 3 + a * x + b)) xs"

definition elliptic_curve_points :: "real \<Rightarrow> real \<Rightarrow> real list \<Rightarrow> npfloat list" where
  "elliptic_curve_points a b xs = map (\<lambda>x. np_sqrt (x ^ 3 + a * x + b)) xs"

text \<open>
  The body of \<^verbatim>\<open>for i in range(len(x_points))\<close>: an arrow to the negative branch
  \<^verbatim>\<open>(x_points[i], -elliptic_curve_points[i])\<close> and one to the positive branch
  \<^verbatim>\<open>(x_points[i], elliptic_curve_points[i])\<close>.
\<close>

definition annotate_point :: "real \<Rightarrow> real \<Rightarrow> real list \<Rightarrow> nat \<Rightarrow> call list" where
  "annotate_point a b xs i =
     [Annotate '''' (Fin (xs ! i), np_neg (elliptic_curve_points a b xs ! i))
        (Fin (xs ! i), Fin (cubic_curve_neg_points a b xs ! i)) (''->'', ''grey''),
      Annotate '''' (Fin (xs ! i), elliptic_curve_points a b xs ! i)
        (Fin (xs ! i), Fin (cubic_curve_points a b xs ! i)) (''->'', ''grey'')]"

definition annotations :: "real \<Rightarrow> real \<Rightarrow> real list \<Rightarrow> call list" where
  "annotations a b xs = concat (map (annotate_point a b xs) [0..<length xs])"

text \<open>The script, top to bottom, as a function of its four constants.\<close>

definition cubic_to_elliptic_curve :: "int \<Rightarrow> int \<Rightarrow> int \<Rightarrow> int \<Rightarrow> call list" where
  "cubic_to_elliptic_curve a b y_max x_max =
     (let (y, x) = ogrid y_max x_max
      in [Subplots 1 1,
          Contour ax1 x y (c2e_cubic_curve (of_int a) (of_int b) y x) [0] ''red'',
          Contour ax1 x y (c2e_cubic_curve_neg (of_int a) (of_int b) y x) [0] ''royalblue'',
          Set_title ax1 (''$'' @ cubic_eq_title a b @ ''$''),
          Contour ax1 x y (elliptic_curve (of_int a) (of_int b) y x) [0] ''black'']
         @ annotations (of_int a) (of_int b) x_points
         @ [Set_xlabel ax1 ''x'',
            Set_ylabel ax1 ''y'',
            Set_ylim ax1 (of_int y_max) (- of_int y_max),
            Axhline ax1,
            Axvline ax1,
            Grid ax1,
            Set_title ax1 (''$'' @ c2e_eq_title a b @ ''$''),
            Tight_layout,
            Savefig ''docs/images/cubic-to-elliptic.png'',
            Savefig ''docs/images/cubic-to-elliptic.svg'',
            Show])"

text \<open>\<^verbatim>\<open>a = 0\<close>, \<^verbatim>\<open>b = 7\<close>, \<^verbatim>\<open>y_max = 15\<close>, \<^verbatim>\<open>x_max = 4\<close>.\<close>

definition cubic_to_elliptic_curve_script :: "call list" where
  "cubic_to_elliptic_curve_script = cubic_to_elliptic_curve 0 7 15 4"

section \<open>plot-elliptic-curve.py\<close>

definition plot_elliptic_curve :: "int \<Rightarrow> int \<Rightarrow> int \<Rightarrow> int \<Rightarrow> call list" where
  "plot_elliptic_curve a b y_max x_max =
     (let (y, x) = ogrid y_max x_max
      in [Subplots 1 2,
          Contour ax1 x y (pec_cubic_curve (of_int a) (of_int b) y x) [0] ''royalblue'',
          Contour ax1 x y (pec_cubic_curve_neg (of_int a) (of_int b) y x) [0] ''red'',
          Set_xlabel ax1 ''x'',
          Set_ylabel ax1 ''y'',
          Axhline ax1,
          Axvline ax1,
          Grid ax1,
          Set_title ax1 (''$'' @ cubic_eq_title a b @ ''$''),
          Contour ax2 x y (elliptic_curve (of_int a) (of_int b) y x) [0] ''royalblue'',
          Set_xlabel ax2 ''x'',
          Set_ylabel ax2 ''y'',
          Axhline ax2,
          Axvline ax2,
          Grid ax2,
          Set_title ax2 (''$'' @ pec_eq_title a b @ ''$''),
          Tight_layout,
          Savefig ''docs/images/both_curves.png'',
          Savefig ''docs/images/both_curves.svg'',
          Show])"

text \<open>\<^verbatim>\<open>a = 0\<close>, \<^verbatim>\<open>b = 7\<close>, \<^verbatim>\<open>y_max = 15\<close>, \<^verbatim>\<open>x_max = 9\<close>.\<close>

definition plot_elliptic_curve_script :: "call list" where
  "plot_elliptic_curve_script = plot_elliptic_curve 0 7 15 9"

section \<open>plot-elliptic-curve-grid.py\<close>

text \<open>\<^verbatim>\<open>a_values = np.linspace(-2, 1, 4)\<close> and \<^verbatim>\<open>b_values = np.linspace(-1, 2, 4)\<close>\<close>

definition a_values :: "real list" where
  "a_values = linspace (- 2) 1 4"

definition b_values :: "real list" where
  "b_values = linspace (- 1) 2 4"

text \<open>The first pair of loops: column titles on the first row, row labels on the first column.\<close>

definition grid_labels :: "call list" where
  "grid_labels =
     concat (map (\<lambda>(i, a). concat (map (\<lambda>(j, b).
         (if i = 0 then [Set_title (Axes i j) (''b='' @ fmt_0f b)] else [])
         @ (if j = 0 then [Set_ylabel (Axes i j) (''a='' @ fmt_0f a)] else []))
       (enumerate 0 b_values))) (enumerate 0 a_values))"

text \<open>The second pair of loops: one contour per subplot.\<close>

definition grid_plots :: "int \<Rightarrow> int \<Rightarrow> call list" where
  "grid_plots y_max x_max =
     concat (map (\<lambda>(i, a). concat (map (\<lambda>(j, b).
         (let (y, x) = ogrid y_max x_max
          in [Contour (Axes i j) x y (curve a b y x) [0] ''royalblue'', Grid (Axes i j)]))
       (enumerate 0 b_values))) (enumerate 0 a_values))"

definition plot_elliptic_curve_grid :: "int \<Rightarrow> int \<Rightarrow> call list" where
  "plot_elliptic_curve_grid y_max x_max =
     [Subplots 4 4] @ grid_labels @ grid_plots y_max x_max
       @ [Tight_layout,
          Savefig ''docs/images/elliptic_curves_grid.png'',
          Savefig ''docs/images/elliptic_curves_grid.svg'',
          Show]"

text \<open>\<^verbatim>\<open>y_max = 5\<close>, \<^verbatim>\<open>x_max = 5\<close>.\<close>

definition plot_elliptic_curve_grid_script :: "call list" where
  "plot_elliptic_curve_grid_script = plot_elliptic_curve_grid 5 5"

section \<open>point-addition.py\<close>

text \<open>
  \<^verbatim>\<open>P = (-1, np.sqrt((-1) ** 3 + a * (-1) + b))\<close> and
  \<^verbatim>\<open>Q = (2, np.sqrt(2 ** 3 + a * 2 + b))\<close>: the radicands are Python ints, computed
  exactly, and \<^verbatim>\<open>np.sqrt\<close> raises on one that is out of range.
\<close>

definition P :: "int \<Rightarrow> int \<Rightarrow> py_error + npfloat \<times> npfloat" where
  "P a b =
     (case np_sqrt_int ((- 1) ^ 3 + a * (- 1) + b) of
        Inl e \<Rightarrow> Inl e
      | Inr v \<Rightarrow> Inr (Fin (- 1), v))"

definition Q :: "int \<Rightarrow> int \<Rightarrow> py_error + npfloat \<times> npfloat" where
  "Q a b =
     (case np_sqrt_int (2 ^ 3 + a * 2 + b) of
        Inl e \<Rightarrow> Inl e
      | Inr v \<Rightarrow> Inr (Fin 2, v))"

text \<open>
  The script saves nothing: its two \<^verbatim>\<open>plt.savefig\<close> lines are commented out, and its
  title is the fixed text \<^verbatim>\<open>'Point addition'\<close>. \<open>P\<close> is evaluated before \<open>Q\<close>, and both
  after the contour is drawn; an exception from either ends the script there.
\<close>

definition point_addition :: "int \<Rightarrow> int \<Rightarrow> int \<Rightarrow> int \<Rightarrow> call list" where
  "point_addition a b x_max y_max =
     (let (y, x) = ogrid y_max x_max
      in [Subplots 1 1,
          Set_title ax1 ''Point addition'',
          Contour ax1 x y (elliptic_curve (of_int a) (of_int b) y x) [0] ''royalblue'',
          Set_xlabel ax1 ''x'',
          Set_ylabel ax1 ''y'',
          Set_ylim ax1 (of_int y_max) (- of_int y_max),
          Axhline ax1,
          Axvline ax1,
          Grid ax1]
         @ (case P a b of
              Inl e \<Rightarrow> [Raise e]
            | Inr p \<Rightarrow>
                (case Q a b of
                   Inl e \<Rightarrow> [Raise e]
                 | Inr q \<Rightarrow>
                     [Plot ax1 [fst p] [snd p] ''ro'' ''P'',
                      Plot ax1 [fst q] [snd q] ''go'' ''Q'',
                      Plot ax1 [fst p, fst q] [snd p, snd q] ''k--'' ''P + Q'',
                      Legend ax1,
                      Tight_layout,
                      Show])))"

text \<open>\<^verbatim>\<open>a = -2\<close>, \<^verbatim>\<open>b = 2\<close>, \<^verbatim>\<open>x_max = 3\<close>, \<^verbatim>\<open>y_max = 5\<close>.\<close>

definition point_addition_script :: "call list" where
  "point_addition_script = point_addition (- 2) 2 3 5"

section \<open>Observing a script\<close>

text \<open>
  What leaves the process: writing the figure to a file, opening the window, and the
  exception that ends the script. \<open>io_calls\<close> is a script from its first such entry on.
\<close>

fun is_io :: "call \<Rightarrow> bool" where
  "is_io (Savefig p) = True"
| "is_io Show = True"
| "is_io (Raise e) = True"
| "is_io c = False"

fun io_calls :: "call list \<Rightarrow> call list" where
  "io_calls [] = []"
| "io_calls (c # cs) = (if is_io c then c # cs else io_calls cs)"

text \<open>
  The titles a script sets, in order, each with the axes it is set on.
\<close>

fun titles :: "call list \<Rightarrow> (axes \<times> string) list" where
  "titles [] = []"
| "titles (Set_title ax t # cs) = (ax, t) # titles cs"
| "titles (c # cs) = titles cs"

text \<open>
  A call that is handed a NaN coordinate.
\<close>

fun has_nan :: "call \<Rightarrow> bool" where
  "has_nan (Annotate t xy xytext arrow) = (NaN \<in> {fst xy, snd xy, fst xytext, snd xytext})"
| "has_nan (Plot ax xs ys fmt label) = (NaN \<in> set xs \<union> set ys)"
| "has_nan c = False"

section \<open>Running a script\<close>

text \<open>
  What matplotlib does with the calls, as far as the results of a run go: drawing calls
  accumulate in the current figure, \<^verbatim>\<open>plt.savefig(path)\<close> stores the figure as it is
  at that moment under \<open>path\<close> (replacing what was there), and \<^verbatim>\<open>plt.show()\<close> opens the
  window. An exception draws nothing and stores nothing. Rendering is not modelled: a
  stored figure is the list of calls that drew it. A failing write (a missing directory)
  ends the script with the platform's error and is not part of this model.
\<close>

record plt_state =
  figure :: "call list"
  files :: "string \<rightharpoonup> call list"
  displayed :: bool

fun exec :: "plt_state \<Rightarrow> call \<Rightarrow> plt_state" where
  "exec st (Savefig p) = st\<lparr>files := (files st)(p \<mapsto> figure st)\<rparr>"
| "exec st Show = st\<lparr>displayed := True\<rparr>"
| "exec st (Raise e) = st"
| "exec st c = st\<lparr>figure := figure st @ [c]\<rparr>"

text \<open>
  One run is one process: it starts with an empty figure and the files already on disk.
\<close>

definition run :: "call list \<Rightarrow> (string \<rightharpoonup> call list) \<Rightarrow> plt_state" where
  "run script disk = foldl exec \<lparr>figure = [], files = disk, displayed = False\<rparr> script"

section \<open>Facts about the primitives\<close>

lemma ogrid_axis_length: "length (ogrid_axis s e n) = n"
  by (simp add: ogrid_axis_def)

lemma ogrid_axis_nth:
  "i < n \<Longrightarrow> ogrid_axis s e n ! i = real i * ((e - s) / real (n - 1)) + s"
  by (simp add: ogrid_axis_def)



lemma broadcast_nth:
  "i < length y \<Longrightarrow> j < length x \<Longrightarrow> broadcast f y x ! i ! j = f (y ! i) (x ! j)"
  by (simp add: broadcast_def)

lemma symmetric_axis_nth:
  "i < 100 \<Longrightarrow> ogrid_axis (- m) m 100 ! i = (2 * real i / 99 - 1) * m"
  by (simp add: ogrid_axis_nth algebra_simps)


lemma symmetric_axis_mirror:
  assumes "i < 100"
  shows "ogrid_axis (- m) m 100 ! (99 - i) = - (ogrid_axis (- m) m 100 ! i)"
proof -
  from assms have "real (99 - i) = 99 - real i"
    by (simp add: of_nat_diff)
  with assms have "ogrid_axis (- m) m 100 ! (99 - i) = (2 * (99 - real i) / 99 - 1) * m"
    by (simp add: symmetric_axis_nth)
  also have "\<dots> = - ((2 * real i / 99 - 1) * m)"
    by (simp add: field_simps)
  finally show ?thesis
    using assms by (simp add: symmetric_axis_nth)
qed

lemma node_value:
  "i < 100 \<Longrightarrow> j < 100 \<Longrightarrow>
     elliptic_curve a b (fst (ogrid ym xm)) (snd (ogrid ym xm)) ! i ! j
       = ((2 * real i / 99 - 1) * real_of_int ym) ^ 2 - ((2 * real j / 99 - 1) * real_of_int xm) ^ 3
           - (2 * real j / 99 - 1) * real_of_int xm * a - b"
  by (simp add: elliptic_curve_def broadcast_nth ogrid_def ogrid_axis_length symmetric_axis_nth)

lemma x_points_eq: "x_points = [- 1.6, - 1.1, - 0.6, - 0.1, 0.4, 0.9, 1.4, 1.9]"
  by (simp add: x_points_def arange_def upt_conv_Cons)

lemma a_values_eq: "a_values = [- 2, - 1, 0, 1]"
  by (simp add: a_values_def linspace_def upt_conv_Cons)

lemma b_values_eq: "b_values = [- 1, 0, 1, 2]"
  by (simp add: b_values_def linspace_def upt_conv_Cons)

lemma enum4: "enumerate 0 [a, b, c, d] = [(0, a), (1, b), (2, c), (3, d)]"
  by (simp add: enumerate_simps)

lemma fmt_0f_values:
  "fmt_0f (- 1) = ''-1''" "fmt_0f 0 = ''0''" "fmt_0f 1 = ''1''" "fmt_0f 2 = ''2''"
  by code_simp+

lemma str_int_values: "str_int 7 = ''7''" "str_int (- 2) = ''-2''"
  by code_simp+

section \<open>Facts about runs and observers\<close>

lemma io_calls_split: "s = takeWhile (\<lambda>c. \<not> is_io c) s @ io_calls s"
  by (induction s) simp_all

lemma foldl_exec_drawing:
  "\<forall>c\<in>set xs. \<not> is_io c \<Longrightarrow> foldl exec st xs = st\<lparr>figure := figure st @ xs\<rparr>"
proof (induction xs arbitrary: st)
  case Nil
  then show ?case by simp
next
  case (Cons c cs)
  then have "exec st c = st\<lparr>figure := figure st @ [c]\<rparr>"
    by (cases c) simp_all
  with Cons show ?case by simp
qed

lemma run_saves_twice:
  assumes "io_calls s = [Savefig p1, Savefig p2, Show]"
  shows "run s disk = \<lparr>figure = takeWhile (\<lambda>c. \<not> is_io c) s,
           files = disk(p1 \<mapsto> takeWhile (\<lambda>c. \<not> is_io c) s, p2 \<mapsto> takeWhile (\<lambda>c. \<not> is_io c) s),
           displayed = True\<rparr>"
proof -
  let ?pre = "takeWhile (\<lambda>c. \<not> is_io c) s"
  have pre: "\<forall>c\<in>set ?pre. \<not> is_io c"
    by (auto dest: set_takeWhileD)
  have "run s disk = foldl exec \<lparr>figure = [], files = disk, displayed = False\<rparr> (?pre @ io_calls s)"
    unfolding run_def using io_calls_split [of s] by simp
  also have "\<dots> = foldl exec (foldl exec \<lparr>figure = [], files = disk, displayed = False\<rparr> ?pre) (io_calls s)"
    by simp
  finally show ?thesis
    by (simp add: foldl_exec_drawing [OF pre] assms)
qed

lemma run_only_shows:
  assumes "io_calls s = [Show]"
  shows "run s disk = \<lparr>figure = takeWhile (\<lambda>c. \<not> is_io c) s, files = disk, displayed = True\<rparr>"
proof -
  let ?pre = "takeWhile (\<lambda>c. \<not> is_io c) s"
  have pre: "\<forall>c\<in>set ?pre. \<not> is_io c"
    by (auto dest: set_takeWhileD)
  have "run s disk = foldl exec \<lparr>figure = [], files = disk, displayed = False\<rparr> (?pre @ io_calls s)"
    unfolding run_def using io_calls_split [of s] by simp
  also have "\<dots> = foldl exec (foldl exec \<lparr>figure = [], files = disk, displayed = False\<rparr> ?pre) (io_calls s)"
    by simp
  finally show ?thesis
    by (simp add: foldl_exec_drawing [OF pre] assms)
qed

lemma io_calls_append:
  "\<forall>c\<in>set xs. \<not> is_io c \<Longrightarrow> io_calls (xs @ ys) = io_calls ys"
  by (induction xs) simp_all

lemma titles_append: "titles (xs @ ys) = titles xs @ titles ys"
  by (induction xs rule: titles.induct) simp_all

lemma annotations_no_io: "\<forall>c\<in>set (annotations a b xs). \<not> is_io c"
  by (auto simp: annotations_def annotate_point_def)

lemma titles_annotations: "titles (annotations a b xs) = []"
proof -
  have "titles (concat (map (annotate_point a b xs) is)) = []" for "is"
    by (induction "is") (simp_all add: titles_append annotate_point_def)
  then show ?thesis by (simp add: annotations_def)
qed

lemma c2e_io: "io_calls (cubic_to_elliptic_curve a b ym xm) = [Savefig ''docs/images/cubic-to-elliptic.png'',
      Savefig ''docs/images/cubic-to-elliptic.svg'', Show]"
  by (simp add: cubic_to_elliptic_curve_def split_beta io_calls_append annotations_no_io)

lemma pec_io: "io_calls (plot_elliptic_curve a b ym xm) = [Savefig ''docs/images/both_curves.png'',
      Savefig ''docs/images/both_curves.svg'', Show]"
  by (simp add: plot_elliptic_curve_def split_beta)

lemma run_raises:
  assumes "io_calls s = [Raise e]"
  shows "run s disk = \<lparr>figure = takeWhile (\<lambda>c. \<not> is_io c) s, files = disk, displayed = False\<rparr>"
proof -
  let ?pre = "takeWhile (\<lambda>c. \<not> is_io c) s"
  have pre: "\<forall>c\<in>set ?pre. \<not> is_io c"
    by (auto dest: set_takeWhileD)
  have "run s disk = foldl exec \<lparr>figure = [], files = disk, displayed = False\<rparr> (?pre @ io_calls s)"
    unfolding run_def using io_calls_split [of s] by simp
  also have "\<dots> = foldl exec (foldl exec \<lparr>figure = [], files = disk, displayed = False\<rparr> ?pre) (io_calls s)"
    by simp
  finally show ?thesis
    by (simp add: foldl_exec_drawing [OF pre] assms)
qed

lemma pa_io:
  "io_calls (point_addition a b xm ym)
     = (case P a b of Inl e \<Rightarrow> [Raise e]
        | Inr p \<Rightarrow> (case Q a b of Inl e \<Rightarrow> [Raise e] | Inr q \<Rightarrow> [Show]))"
  by (simp add: point_addition_def split_beta split: sum.splits)

lemma pa_files: "files (run (point_addition a b xm ym) disk) = disk"
proof -
  consider e where "io_calls (point_addition a b xm ym) = [Raise e]"
    | "io_calls (point_addition a b xm ym) = [Show]"
    by (cases "P a b"; cases "Q a b") (auto simp: pa_io)
  then show ?thesis
    by cases (simp_all add: run_raises run_only_shows)
qed

lemma pq_script: "P (- 2) 2 = Inr (Fin (- 1), Fin (sqrt 3))" "Q (- 2) 2 = Inr (Fin 2, Fin (sqrt 6))"
  by (simp_all add: P_def Q_def np_sqrt_int_def np_sqrt_def)

lemma pa_titles: "titles (point_addition a b xm ym) = [(ax1, ''Point addition'')]"
  by (simp add: point_addition_def split_beta titles_append split: sum.splits)

lemma grid_labels_no_io: "\<forall>c\<in>set grid_labels. \<not> is_io c"
  by (auto simp: grid_labels_def split: if_splits)

lemma grid_plots_no_io: "\<forall>c\<in>set (grid_plots ym xm). \<not> is_io c"
  by (auto simp: grid_plots_def split_beta)

lemma grid_io: "io_calls (plot_elliptic_curve_grid ym xm) = [Savefig ''docs/images/elliptic_curves_grid.png'',
      Savefig ''docs/images/elliptic_curves_grid.svg'', Show]"
  by (simp add: plot_elliptic_curve_grid_def io_calls_append grid_labels_no_io grid_plots_no_io)

lemma titles_grid_labels:
  "titles grid_labels = [(Axes 0 0, ''b=-1''), (Axes 0 1, ''b=0''), (Axes 0 2, ''b=1''), (Axes 0 3, ''b=2'')]"
  by (simp add: grid_labels_def a_values_eq b_values_eq enum4 fmt_0f_values)

lemma titles_grid_plots: "titles (grid_plots ym xm) = []"
  by (simp add: grid_plots_def a_values_eq b_values_eq enum4 split_beta)

lemma eq_title_shape:
  "\<exists>ta tb. lhs @ (if a \<noteq> 0 then pre @ str_int a @ ''x'' else '''') @ '' ''
            @ (if b \<noteq> 0 then ''- '' @ str_int b else '''') = lhs @ ta @ '' '' @ tb
     \<and> (ta = [] \<longleftrightarrow> a = 0) \<and> (tb = [] \<longleftrightarrow> b = 0)
     \<and> (a \<noteq> 0 \<longrightarrow> sublist (str_int a @ ''x'') ta) \<and> (b \<noteq> 0 \<longrightarrow> sublist (str_int b) tb)"
proof -
  let ?ta = "if a \<noteq> 0 then pre @ str_int a @ ''x'' else ''''"
  let ?tb = "if b \<noteq> 0 then ''- '' @ str_int b else ''''"
  have "sublist (str_int a @ ''x'') (pre @ str_int a @ ''x'')"
    and "sublist (str_int b) (''- '' @ str_int b)"
    by (rule sublist_append_leftI)+
  then have "(?ta = [] \<longleftrightarrow> a = 0) \<and> (?tb = [] \<longleftrightarrow> b = 0)
     \<and> (a \<noteq> 0 \<longrightarrow> sublist (str_int a @ ''x'') ?ta) \<and> (b \<noteq> 0 \<longrightarrow> sublist (str_int b) ?tb)"
    by simp
  then show ?thesis by blast
qed


section \<open>The claims\<close>

subsection \<open>C1: the implicit surface holds the residual at every grid point\<close>

text \<open>
  Claim C1. For the grid \<open>(y, x)\<close> every script builds and every index pair \<open>(i, j)\<close> of the
  100 x 100 array, the entry \<open>[i][j]\<close> of the implicit surface is the residual
  \<open>y\<^sup>2 - x\<^sup>3 - a x - b\<close> at the grid point \<open>(x[j], y[i])\<close>. This holds for \<open>elliptic_curve\<close>
  (cubic-to-elliptic-curve.py, plot-elliptic-curve.py, point-addition.py) and for \<open>curve\<close>
  (plot-elliptic-curve-grid.py), whatever the coefficients and bounds.
\<close>

theorem implicit_surface_entry:
  assumes "(y, x) = ogrid y_max x_max" and "i < 100" and "j < 100"
  shows "elliptic_curve a b y x ! i ! j = (y ! i) ^ 2 - (x ! j) ^ 3 - a * (x ! j) - b
    \<and> curve a b y x ! i ! j = (y ! i) ^ 2 - (x ! j) ^ 3 - a * (x ! j) - b"
proof -
  from assms(1) have "length y = 100" and "length x = 100"
    by (simp_all add: ogrid_def ogrid_axis_length)
  with assms(2,3) show ?thesis
    by (simp add: elliptic_curve_def curve_def broadcast_nth mult.commute)
qed

text \<open>
  At the constants of cubic-to-elliptic-curve.py, and at the corner \<open>x = 5\<close>, \<open>y = -5\<close> of the
  first subplot (\<open>a = -2\<close>, \<open>b = -1\<close>) of plot-elliptic-curve-grid.py.
\<close>

theorem implicit_surface_entry_witness:
  "elliptic_curve 0 7 (fst (ogrid 15 4)) (snd (ogrid 15 4)) ! 36 ! 74
     = (fst (ogrid 15 4) ! 36) ^ 2 - (snd (ogrid 15 4) ! 74) ^ 3 - 0 * (snd (ogrid 15 4) ! 74) - 7
   \<and> curve (- 2) (- 1) (fst (ogrid 5 5)) (snd (ogrid 5 5)) ! 0 ! 99 = 5 ^ 2 - 5 ^ 3 - (- 2) * 5 - (- 1)"
proof -
  have a: "(fst (ogrid 15 4), snd (ogrid 15 4)) = ogrid 15 4"
    and b: "(fst (ogrid 5 5), snd (ogrid 5 5)) = ogrid 5 5"
    by simp_all
  have "snd (ogrid 5 5) ! 99 = 5" "fst (ogrid 5 5) ! 0 = - 5"
    by (simp_all add: ogrid_def symmetric_axis_nth)
  then show ?thesis
    using implicit_surface_entry [OF a, of 36 74 0 7] implicit_surface_entry [OF b, of 0 99 "- 2" "- 1"]
    by simp
qed

subsection \<open>C2: the sampling grid\<close>



subsection \<open>C3: saving the figure\<close>

text \<open>
  Claim C3 says every script saves its finished figure as a PNG and as an SVG before it
  shows it. point-addition.py does not: its two \<^verbatim>\<open>plt.savefig\<close> lines are commented out, so
  the script only shows the figure and a run leaves the disk as it found it.
\<close>

theorem point_addition_saves_nothing:
  "io_calls point_addition_script = [Show]
   \<and> files (run point_addition_script Map.empty) ''docs/images/cubic-to-elliptic.png'' = None
   \<and> dom (files (run point_addition_script Map.empty)) = {}"
  by (simp add: point_addition_script_def pa_io pa_files pq_script)

text \<open>
  Claim C3, amended. cubic-to-elliptic-curve.py, plot-elliptic-curve.py and
  plot-elliptic-curve-grid.py each end with a save to a fixed relative PNG path, a save to
  a fixed relative SVG path and then the show, with every drawing call before the first
  save: after a run both files hold the finished figure. point-addition.py saves nothing:
  it ends with the show (or with the exception of an out-of-range square root) and leaves
  the disk as it found it.
\<close>

theorem figure_saved_before_show:
  "io_calls (cubic_to_elliptic_curve a b y_max x_max)
     = [Savefig ''docs/images/cubic-to-elliptic.png'', Savefig ''docs/images/cubic-to-elliptic.svg'', Show]
   \<and> files (run (cubic_to_elliptic_curve a b y_max x_max) disk)
     = disk(''docs/images/cubic-to-elliptic.png'' \<mapsto> figure (run (cubic_to_elliptic_curve a b y_max x_max) disk),
            ''docs/images/cubic-to-elliptic.svg'' \<mapsto> figure (run (cubic_to_elliptic_curve a b y_max x_max) disk))
   \<and> io_calls (plot_elliptic_curve a b y_max x_max)
     = [Savefig ''docs/images/both_curves.png'', Savefig ''docs/images/both_curves.svg'', Show]
   \<and> files (run (plot_elliptic_curve a b y_max x_max) disk)
     = disk(''docs/images/both_curves.png'' \<mapsto> figure (run (plot_elliptic_curve a b y_max x_max) disk),
            ''docs/images/both_curves.svg'' \<mapsto> figure (run (plot_elliptic_curve a b y_max x_max) disk))
   \<and> io_calls (plot_elliptic_curve_grid y_max x_max)
     = [Savefig ''docs/images/elliptic_curves_grid.png'', Savefig ''docs/images/elliptic_curves_grid.svg'', Show]
   \<and> files (run (plot_elliptic_curve_grid y_max x_max) disk)
     = disk(''docs/images/elliptic_curves_grid.png'' \<mapsto> figure (run (plot_elliptic_curve_grid y_max x_max) disk),
            ''docs/images/elliptic_curves_grid.svg'' \<mapsto> figure (run (plot_elliptic_curve_grid y_max x_max) disk))
   \<and> io_calls (point_addition a b x_max y_max)
     = (case P a b of Inl e \<Rightarrow> [Raise e]
        | Inr p \<Rightarrow> (case Q a b of Inl e \<Rightarrow> [Raise e] | Inr q \<Rightarrow> [Show]))
   \<and> files (run (point_addition a b x_max y_max) disk) = disk"
  by (simp add: c2e_io pec_io grid_io pa_io pa_files run_saves_twice [OF c2e_io]
      run_saves_twice [OF pec_io] run_saves_twice [OF grid_io])

text \<open>
  At the constants of the three scripts that save.
\<close>

theorem figure_saved_before_show_witness:
  "io_calls cubic_to_elliptic_curve_script
     = [Savefig ''docs/images/cubic-to-elliptic.png'', Savefig ''docs/images/cubic-to-elliptic.svg'', Show]
   \<and> io_calls plot_elliptic_curve_script
     = [Savefig ''docs/images/both_curves.png'', Savefig ''docs/images/both_curves.svg'', Show]
   \<and> io_calls plot_elliptic_curve_grid_script
     = [Savefig ''docs/images/elliptic_curves_grid.png'', Savefig ''docs/images/elliptic_curves_grid.svg'', Show]
   \<and> dom (files (run plot_elliptic_curve_script Map.empty))
     = {''docs/images/both_curves.png'', ''docs/images/both_curves.svg''}"
  using figure_saved_before_show [of 0 7 15 4 Map.empty] figure_saved_before_show [of 0 7 15 9 Map.empty]
    figure_saved_before_show [of 0 7 5 5 Map.empty]
  by (auto simp: cubic_to_elliptic_curve_script_def plot_elliptic_curve_script_def
      plot_elliptic_curve_grid_script_def)

subsection \<open>C4: the two explicit branches mirror each other\<close>

text \<open>
  Claim C4. Where the radicand \<open>x\<^sup>3 + a x + b\<close> is not negative, the positive branch is its
  real square root and the negative branch, \<^verbatim>\<open>-elliptic_curve_points[i]\<close>, is the negation of
  that root; these are the ordinates the two arrows of marker \<open>i\<close> point at.
\<close>

theorem branches_reflect:
  assumes "i < length xs" and "0 \<le> (xs ! i) ^ 3 + a * (xs ! i) + b"
  shows "elliptic_curve_points a b xs ! i = Fin (sqrt ((xs ! i) ^ 3 + a * (xs ! i) + b))
    \<and> np_neg (elliptic_curve_points a b xs ! i) = Fin (- sqrt ((xs ! i) ^ 3 + a * (xs ! i) + b))
    \<and> annotate_point a b xs i =
        [Annotate '''' (Fin (xs ! i), Fin (- sqrt ((xs ! i) ^ 3 + a * (xs ! i) + b)))
           (Fin (xs ! i), Fin (- ((xs ! i) ^ 3 + a * (xs ! i) + b))) (''->'', ''grey''),
         Annotate '''' (Fin (xs ! i), Fin (sqrt ((xs ! i) ^ 3 + a * (xs ! i) + b)))
           (Fin (xs ! i), Fin ((xs ! i) ^ 3 + a * (xs ! i) + b)) (''->'', ''grey'')]"
  using assms
  by (simp add: annotate_point_def elliptic_curve_points_def cubic_curve_points_def
      cubic_curve_neg_points_def np_sqrt_def)

text \<open>
  The first marker of cubic-to-elliptic-curve.py: \<open>x = -1.6\<close>, radicand \<open>2.904\<close>.
\<close>

theorem branches_reflect_witness:
  "elliptic_curve_points 0 7 x_points ! 0 = Fin (sqrt 2.904)
   \<and> np_neg (elliptic_curve_points 0 7 x_points ! 0) = Fin (- sqrt 2.904)"
proof -
  have "(0::nat) < length x_points" and "(0::real) \<le> (x_points ! 0) ^ 3 + 0 * (x_points ! 0) + 7"
    and "(x_points ! 0) ^ 3 + 0 * (x_points ! 0) + 7 = 2.904"
    by (simp_all add: x_points_eq power3_eq_cube)
  then show ?thesis
    using branches_reflect [of 0 x_points 0 7] by simp
qed

subsection \<open>C5: a negative radicand gives NaN, and the script goes on\<close>




subsection \<open>C6: the residual changes sign on the grid\<close>

text \<open>
  Claim C6. For \<open>a = 0\<close>, \<open>b = 7\<close> the residual surface that cubic-to-elliptic-curve.py
  contours (grid \<open>[-4, 4] \<times> [-15, 15]\<close>) is positive at node \<open>(36, 74)\<close> and negative at the
  node below it, \<open>(37, 74)\<close>; the surface of plot-elliptic-curve.py (grid \<open>[-9, 9] \<times> [-15, 15]\<close>)
  is positive at \<open>(37, 60)\<close> and negative at \<open>(38, 60)\<close>. All four nodes lie in the box
  \<open>x \<in> [-2, 4]\<close>, \<open>y \<in> [-5, 5]\<close>. A sign change between two neighbouring nodes is where the
  zero contour crosses a cell edge.
\<close>

theorem zero_contour_crossing:
  "0 < elliptic_curve 0 7 (fst (ogrid 15 4)) (snd (ogrid 15 4)) ! 36 ! 74
   \<and> elliptic_curve 0 7 (fst (ogrid 15 4)) (snd (ogrid 15 4)) ! 37 ! 74 < 0
   \<and> - 2 \<le> snd (ogrid 15 4) ! 74 \<and> snd (ogrid 15 4) ! 74 \<le> 4
   \<and> - 5 \<le> fst (ogrid 15 4) ! 36 \<and> fst (ogrid 15 4) ! 37 \<le> 5
   \<and> Contour ax1 (snd (ogrid 15 4)) (fst (ogrid 15 4))
        (elliptic_curve 0 7 (fst (ogrid 15 4)) (snd (ogrid 15 4))) [0] ''black''
        \<in> set cubic_to_elliptic_curve_script
   \<and> 0 < elliptic_curve 0 7 (fst (ogrid 15 9)) (snd (ogrid 15 9)) ! 37 ! 60
   \<and> elliptic_curve 0 7 (fst (ogrid 15 9)) (snd (ogrid 15 9)) ! 38 ! 60 < 0
   \<and> - 2 \<le> snd (ogrid 15 9) ! 60 \<and> snd (ogrid 15 9) ! 60 \<le> 4
   \<and> - 5 \<le> fst (ogrid 15 9) ! 37 \<and> fst (ogrid 15 9) ! 38 \<le> 5
   \<and> Contour ax2 (snd (ogrid 15 9)) (fst (ogrid 15 9))
        (elliptic_curve 0 7 (fst (ogrid 15 9)) (snd (ogrid 15 9))) [0] ''royalblue''
        \<in> set plot_elliptic_curve_script"
proof -
  have signs: "0 < elliptic_curve 0 7 (fst (ogrid 15 4)) (snd (ogrid 15 4)) ! 36 ! 74"
    "elliptic_curve 0 7 (fst (ogrid 15 4)) (snd (ogrid 15 4)) ! 37 ! 74 < 0"
    "0 < elliptic_curve 0 7 (fst (ogrid 15 9)) (snd (ogrid 15 9)) ! 37 ! 60"
    "elliptic_curve 0 7 (fst (ogrid 15 9)) (snd (ogrid 15 9)) ! 38 ! 60 < 0"
    by (simp_all add: node_value power2_eq_square power3_eq_cube)
  have box: "- 2 \<le> snd (ogrid 15 4) ! 74" "snd (ogrid 15 4) ! 74 \<le> 4"
    "- 5 \<le> fst (ogrid 15 4) ! 36" "fst (ogrid 15 4) ! 37 \<le> 5"
    "- 2 \<le> snd (ogrid 15 9) ! 60" "snd (ogrid 15 9) ! 60 \<le> 4"
    "- 5 \<le> fst (ogrid 15 9) ! 37" "fst (ogrid 15 9) ! 38 \<le> 5"
    by (simp_all add: ogrid_def symmetric_axis_nth)
  have calls: "Contour ax1 (snd (ogrid 15 4)) (fst (ogrid 15 4))
        (elliptic_curve 0 7 (fst (ogrid 15 4)) (snd (ogrid 15 4))) [0] ''black''
        \<in> set cubic_to_elliptic_curve_script"
    "Contour ax2 (snd (ogrid 15 9)) (fst (ogrid 15 9))
        (elliptic_curve 0 7 (fst (ogrid 15 9)) (snd (ogrid 15 9))) [0] ''royalblue''
        \<in> set plot_elliptic_curve_script"
    by (simp_all add: cubic_to_elliptic_curve_script_def cubic_to_elliptic_curve_def
        plot_elliptic_curve_script_def plot_elliptic_curve_def split_beta)
  from signs box calls show ?thesis by simp
qed

subsection \<open>C7: the titles\<close>

text \<open>
  Claim C7 says every script composes an equation title from its coefficients.
  point-addition.py has \<open>a = -2\<close>, and its only title is the fixed text
  \<^verbatim>\<open>Point addition\<close>, which does not contain the text of \<open>a\<close>.
\<close>

theorem point_addition_title_fixed:
  "titles point_addition_script = [(ax1, ''Point addition'')]
   \<and> \<not> sublist (str_int (- 2)) ''Point addition''"
  by (simp add: point_addition_script_def pa_titles str_int_values sublist_code)

text \<open>
  Claim C7, amended. cubic-to-elliptic-curve.py and plot-elliptic-curve.py compose their
  equation titles from \<open>a\<close> and \<open>b\<close>: after the left-hand side come the \<open>a\<close> term, a space and
  the constant term, where the \<open>a\<close> term is empty exactly when \<open>a = 0\<close> and otherwise contains
  the text of \<open>a\<close> followed by \<open>x\<close>, and the constant term is empty exactly when \<open>b = 0\<close> and
  otherwise contains the text of \<open>b\<close>. point-addition.py sets the fixed title
  \<^verbatim>\<open>Point addition\<close>, and plot-elliptic-curve-grid.py titles the subplots of its first row
  \<^verbatim>\<open>b=-1\<close>, \<^verbatim>\<open>b=0\<close>, \<^verbatim>\<open>b=1\<close>, \<^verbatim>\<open>b=2\<close>.
\<close>

theorem equation_titles:
  "titles (cubic_to_elliptic_curve a b y_max x_max)
     = [(ax1, ''$'' @ cubic_eq_title a b @ ''$''), (ax1, ''$'' @ c2e_eq_title a b @ ''$'')]
   \<and> titles (plot_elliptic_curve a b y_max x_max)
     = [(ax1, ''$'' @ cubic_eq_title a b @ ''$''), (ax2, ''$'' @ pec_eq_title a b @ ''$'')]
   \<and> (\<exists>ta tb. cubic_eq_title a b = ''y = x^3 '' @ ta @ '' '' @ tb
         \<and> (ta = [] \<longleftrightarrow> a = 0) \<and> (tb = [] \<longleftrightarrow> b = 0)
         \<and> (a \<noteq> 0 \<longrightarrow> sublist (str_int a @ ''x'') ta) \<and> (b \<noteq> 0 \<longrightarrow> sublist (str_int b) tb))
   \<and> (\<exists>ta tb. c2e_eq_title a b = ''y^2 = x^3 '' @ ta @ '' '' @ tb
         \<and> (ta = [] \<longleftrightarrow> a = 0) \<and> (tb = [] \<longleftrightarrow> b = 0)
         \<and> (a \<noteq> 0 \<longrightarrow> sublist (str_int a @ ''x'') ta) \<and> (b \<noteq> 0 \<longrightarrow> sublist (str_int b) tb))
   \<and> (\<exists>ta tb. pec_eq_title a b = ''y^2 = x^3 '' @ ta @ '' '' @ tb
         \<and> (ta = [] \<longleftrightarrow> a = 0) \<and> (tb = [] \<longleftrightarrow> b = 0)
         \<and> (a \<noteq> 0 \<longrightarrow> sublist (str_int a @ ''x'') ta) \<and> (b \<noteq> 0 \<longrightarrow> sublist (str_int b) tb))
   \<and> titles (point_addition a b x_max y_max) = [(ax1, ''Point addition'')]
   \<and> titles (plot_elliptic_curve_grid y_max x_max)
     = [(Axes 0 0, ''b=-1''), (Axes 0 1, ''b=0''), (Axes 0 2, ''b=1''), (Axes 0 3, ''b=2'')]"
proof -
  have c2e: "titles (cubic_to_elliptic_curve a b y_max x_max)
     = [(ax1, ''$'' @ cubic_eq_title a b @ ''$''), (ax1, ''$'' @ c2e_eq_title a b @ ''$'')]"
    by (simp add: cubic_to_elliptic_curve_def split_beta titles_append titles_annotations)
  have pec: "titles (plot_elliptic_curve a b y_max x_max)
     = [(ax1, ''$'' @ cubic_eq_title a b @ ''$''), (ax2, ''$'' @ pec_eq_title a b @ ''$'')]"
    by (simp add: plot_elliptic_curve_def split_beta)
  have pa: "titles (point_addition a b x_max y_max) = [(ax1, ''Point addition'')]"
    by (rule pa_titles)
  have grid: "titles (plot_elliptic_curve_grid y_max x_max)
     = [(Axes 0 0, ''b=-1''), (Axes 0 1, ''b=0''), (Axes 0 2, ''b=1''), (Axes 0 3, ''b=2'')]"
    by (simp add: plot_elliptic_curve_grid_def titles_append titles_grid_labels titles_grid_plots)
  have t1: "\<exists>ta tb. cubic_eq_title a b = ''y = x^3 '' @ ta @ '' '' @ tb
         \<and> (ta = [] \<longleftrightarrow> a = 0) \<and> (tb = [] \<longleftrightarrow> b = 0)
         \<and> (a \<noteq> 0 \<longrightarrow> sublist (str_int a @ ''x'') ta) \<and> (b \<noteq> 0 \<longrightarrow> sublist (str_int b) tb)"
    unfolding cubic_eq_title_def by (rule eq_title_shape)
  have t2: "\<exists>ta tb. c2e_eq_title a b = ''y^2 = x^3 '' @ ta @ '' '' @ tb
         \<and> (ta = [] \<longleftrightarrow> a = 0) \<and> (tb = [] \<longleftrightarrow> b = 0)
         \<and> (a \<noteq> 0 \<longrightarrow> sublist (str_int a @ ''x'') ta) \<and> (b \<noteq> 0 \<longrightarrow> sublist (str_int b) tb)"
    unfolding c2e_eq_title_def by (rule eq_title_shape)
  have t3: "\<exists>ta tb. pec_eq_title a b = ''y^2 = x^3 '' @ ta @ '' '' @ tb
         \<and> (ta = [] \<longleftrightarrow> a = 0) \<and> (tb = [] \<longleftrightarrow> b = 0)
         \<and> (a \<noteq> 0 \<longrightarrow> sublist (str_int a @ ''x'') ta) \<and> (b \<noteq> 0 \<longrightarrow> sublist (str_int b) tb)"
    unfolding pec_eq_title_def by (rule eq_title_shape)
  from c2e pec pa grid t1 t2 t3 show ?thesis by blast
qed

text \<open>
  With \<open>a = 0\<close> and \<open>b = 7\<close> the \<open>a\<close> term is left out and the constant term is \<^verbatim>\<open>- 7\<close>.
\<close>

theorem equation_titles_witness:
  "titles cubic_to_elliptic_curve_script = [(ax1, ''$y = x^3  - 7$''), (ax1, ''$y^2 = x^3  - 7$'')]
   \<and> titles plot_elliptic_curve_script = [(ax1, ''$y = x^3  - 7$''), (ax2, ''$y^2 = x^3  - 7$'')]"
  using equation_titles [of 0 7 15 4] equation_titles [of 0 7 15 9]
  by (simp add: cubic_to_elliptic_curve_script_def plot_elliptic_curve_script_def
      cubic_eq_title_def c2e_eq_title_def pec_eq_title_def str_int_values)

subsection \<open>C9: mirror symmetry of the residuals\<close>

text \<open>
  Claim C9. Negating \<open>y\<close> leaves the elliptic residual unchanged and turns the cubic branch
  \<open>cubic_curve\<close> into \<open>cubic_curve_neg\<close>, in both scripts that have the two branches. On the
  grid, row \<open>99 - i\<close> holds \<open>-y[i]\<close>, so the elliptic surface has equal rows \<open>i\<close> and \<open>99 - i\<close>,
  and row \<open>99 - i\<close> of \<open>cubic_curve\<close> is row \<open>i\<close> of \<open>cubic_curve_neg\<close>.
\<close>

theorem residuals_mirror:
  "elliptic_curve a b (map uminus y) x = elliptic_curve a b y x
   \<and> curve a b (map uminus y) x = curve a b y x
   \<and> c2e_cubic_curve a b (map uminus y) x = c2e_cubic_curve_neg a b y x
   \<and> pec_cubic_curve a b (map uminus y) x = pec_cubic_curve_neg a b y x
   \<and> (i < 100 \<and> j < 100 \<longrightarrow>
        elliptic_curve a b (fst (ogrid y_max x_max)) (snd (ogrid y_max x_max)) ! (99 - i) ! j
          = elliptic_curve a b (fst (ogrid y_max x_max)) (snd (ogrid y_max x_max)) ! i ! j
        \<and> c2e_cubic_curve a b (fst (ogrid y_max x_max)) (snd (ogrid y_max x_max)) ! (99 - i) ! j
          = c2e_cubic_curve_neg a b (fst (ogrid y_max x_max)) (snd (ogrid y_max x_max)) ! i ! j
        \<and> pec_cubic_curve a b (fst (ogrid y_max x_max)) (snd (ogrid y_max x_max)) ! (99 - i) ! j
          = pec_cubic_curve_neg a b (fst (ogrid y_max x_max)) (snd (ogrid y_max x_max)) ! i ! j)"
proof -
  have pointwise: "elliptic_curve a b (map uminus y) x = elliptic_curve a b y x"
    "curve a b (map uminus y) x = curve a b y x"
    "c2e_cubic_curve a b (map uminus y) x = c2e_cubic_curve_neg a b y x"
    "pec_cubic_curve a b (map uminus y) x = pec_cubic_curve_neg a b y x"
    by (simp_all add: elliptic_curve_def curve_def c2e_cubic_curve_def c2e_cubic_curve_neg_def
        pec_cubic_curve_def pec_cubic_curve_neg_def broadcast_def)
  have grid: "broadcast f (fst (ogrid y_max x_max)) (snd (ogrid y_max x_max)) ! (99 - i) ! j
      = f (- (fst (ogrid y_max x_max) ! i)) (snd (ogrid y_max x_max) ! j)"
    if "i < 100" "j < 100" for f
    using that by (simp add: broadcast_nth ogrid_def ogrid_axis_length symmetric_axis_mirror)
  have grid': "broadcast f (fst (ogrid y_max x_max)) (snd (ogrid y_max x_max)) ! i ! j
      = f (fst (ogrid y_max x_max) ! i) (snd (ogrid y_max x_max) ! j)"
    if "i < 100" "j < 100" for f
    using that by (simp add: broadcast_nth ogrid_def ogrid_axis_length)
  show ?thesis
    by (simp add: pointwise)
      (simp add: elliptic_curve_def c2e_cubic_curve_def c2e_cubic_curve_neg_def
        pec_cubic_curve_def pec_cubic_curve_neg_def grid grid')
qed

text \<open>
  The first and the last row on the grid of cubic-to-elliptic-curve.py.
\<close>

theorem residuals_mirror_witness:
  "elliptic_curve 0 7 (fst (ogrid 15 4)) (snd (ogrid 15 4)) ! 99 ! 0
     = elliptic_curve 0 7 (fst (ogrid 15 4)) (snd (ogrid 15 4)) ! 0 ! 0
   \<and> c2e_cubic_curve 0 7 (fst (ogrid 15 4)) (snd (ogrid 15 4)) ! 99 ! 0
     = c2e_cubic_curve_neg 0 7 (fst (ogrid 15 4)) (snd (ogrid 15 4)) ! 0 ! 0
   \<and> pec_cubic_curve 0 7 (fst (ogrid 15 4)) (snd (ogrid 15 4)) ! 99 ! 0
     = pec_cubic_curve_neg 0 7 (fst (ogrid 15 4)) (snd (ogrid 15 4)) ! 0 ! 0"
  using residuals_mirror [of 0 7 "[]" "[]" 0 0 15 4] by simp

subsection \<open>C10: with the constants of the scripts no radicand is negative\<close>

text \<open>
  Claim C10. cubic-to-elliptic-curve.py samples \<open>x = -1.6, -1.1, \<dots>, 1.9\<close>, and \<open>x\<^sup>3 + 7\<close> is
  positive at each of them, so every marker ordinate is a real square root; in
  point-addition.py the radicands are 3 and 6. No call of either script is handed a NaN.
\<close>

theorem script_radicands_positive:
  "x_points = [- 1.6, - 1.1, - 0.6, - 0.1, 0.4, 0.9, 1.4, 1.9]
   \<and> list_all (\<lambda>x. 0 < x ^ 3 + 0 * x + 7) x_points
   \<and> elliptic_curve_points 0 7 x_points = map (\<lambda>x. Fin (sqrt (x ^ 3 + 0 * x + 7))) x_points
   \<and> P (- 2) 2 = Inr (Fin (- 1), Fin (sqrt 3))
   \<and> Q (- 2) 2 = Inr (Fin 2, Fin (sqrt 6))
   \<and> list_all (\<lambda>c. \<not> has_nan c) cubic_to_elliptic_curve_script
   \<and> list_all (\<lambda>c. \<not> has_nan c) point_addition_script"
proof -
  have pos: "list_all (\<lambda>x. 0 < x ^ 3 + 0 * x + 7) x_points"
    by (simp add: x_points_eq power3_eq_cube)
  have pts: "elliptic_curve_points 0 7 x_points = map (\<lambda>x. Fin (sqrt (x ^ 3 + 0 * x + 7))) x_points"
    unfolding elliptic_curve_points_def
    by (rule map_cong [OF refl]) (use pos in \<open>auto simp: list_all_iff np_sqrt_def\<close>)
  have pq: "P (- 2) 2 = Inr (Fin (- 1), Fin (sqrt 3))" "Q (- 2) 2 = Inr (Fin 2, Fin (sqrt 6))"
    by (rule pq_script)+
  have ann: "list_all (\<lambda>c. \<not> has_nan c) (annotations 0 7 x_points)"
    by (simp add: annotations_def annotate_point_def pts list_all_iff)
  have c2e: "list_all (\<lambda>c. \<not> has_nan c) cubic_to_elliptic_curve_script"
    using ann by (simp add: cubic_to_elliptic_curve_script_def cubic_to_elliptic_curve_def split_beta)
  have pa: "list_all (\<lambda>c. \<not> has_nan c) point_addition_script"
    by (simp add: point_addition_script_def point_addition_def split_beta pq)
  from pos pts pq c2e pa show ?thesis
    by (simp add: x_points_eq)
qed

text \<open>
  The last marker, \<open>x = 1.9\<close>, has radicand \<open>13.859\<close>.
\<close>

theorem script_radicands_positive_witness:
  "elliptic_curve_points 0 7 x_points ! 7 = Fin (sqrt 13.859)
   \<and> \<not> has_nan (Plot ax1 [Fin (- 1)] [Fin (sqrt 3)] ''ro'' ''P'')"
proof -
  have "map (\<lambda>x. Fin (sqrt (x ^ 3 + 0 * x + 7))) x_points ! 7 = Fin (sqrt 13.859)"
    by (simp add: x_points_eq power3_eq_cube)
  then show ?thesis
    using script_radicands_positive by simp
qed

end
